theory Spec2Isabelle
  imports Main
begin

section \<open>Values, identifiers and rows\<close>

text \<open>
  The batch export service of \<^verbatim>\<open>posthog/batch_exports/service.py\<close>, which the activities
  of \<^verbatim>\<open>posthog/temporal/workflows/base.py\<close> call. The relational store and the workflow
  engine are the two collaborators of the service; both are part of an explicit world that
  every operation takes and returns, together with the value it returns or the exception it
  raises.
\<close>

subsection \<open>UUIDs and their string form\<close>

text \<open>
  A \<^verbatim>\<open>uuid.UUID\<close> is its 128-bit integer; \<^verbatim>\<open>str\<close> of it is the 32 lower-case hexadecimal
  digits of that integer in groups of 8-4-4-4-12.
\<close>

datatype uuid = UUID nat

definition hexchar :: "nat \<Rightarrow> char" where
  "hexchar d = ''0123456789abcdef'' ! d"

primrec hex_digits :: "nat \<Rightarrow> nat \<Rightarrow> string" where
  "hex_digits 0 n = []"
| "hex_digits (Suc k) n = hex_digits k (n div 16) @ [hexchar (n mod 16)]"

fun str_uuid :: "uuid \<Rightarrow> string" where
  "str_uuid (UUID n) =
     (let h = hex_digits 32 n
      in take 8 h @ ''-'' @ take 4 (drop 8 h) @ ''-'' @ take 4 (drop 12 h) @ ''-'' @
         take 4 (drop 16 h) @ ''-'' @ drop 20 h)"

declare str_uuid.simps [simp del]

text \<open>\<^verbatim>\<open>str\<close> of a Python int, used by the f-string of the schedule note.\<close>

fun str_nat :: "nat \<Rightarrow> string" where
  "str_nat n = (if n < 10 then [hexchar n] else str_nat (n div 10) @ [hexchar (n mod 10)])"

declare str_nat.simps [simp del]

definition str_int :: "int \<Rightarrow> string" where
  "str_int i = (if i < 0 then ''-'' @ str_nat (nat (- i)) else str_nat (nat i))"

subsection \<open>Python values\<close>

text \<open>
  A \<^verbatim>\<open>datetime\<close> is kept as a point on the time line. The values that a destination
  configuration and a workflow input can hold are not checked by the dataclass, so a field
  holds any of them.
\<close>

datatype datetime = Datetime int

datatype pyval = PNone | PStr string | PInt int | PUUID uuid | PDatetime datetime

type_synonym kwargs = "(string \<times> pyval) list"

subsection \<open>Exceptions\<close>

datatype error =
    DoesNotExist string
  | MultipleObjectsReturned string
  | IntegrityError string
  | KeyError string
  | ValueError string
  | TypeError string
  | RPCError string
  | ScheduleAlreadyExists string
  | ScheduleNotFound string

subsection \<open>Rows of the relational store\<close>

text \<open>
  Modelled from the spec: the module \<^verbatim>\<open>posthog.batch_exports.models\<close> (the classes
  BatchExport, BatchExportRun and its Status enumeration) and \<^verbatim>\<open>posthog.models.team\<close> are
  missing. The rows carry the attributes the service reads and writes; the statuses are the
  five of the spec's table. A column that a call does not set holds \<open>None\<close>.
\<close>

datatype status = STARTING | RUNNING | COMPLETED | FAILED | CANCELLED

record team =
  t_id :: int
  t_name :: string

record destination =
  d_id :: uuid
  d_type :: string
  d_config :: kwargs

record batch_export =
  be_id :: uuid
  be_team :: team
  be_destination :: destination
  be_paused :: bool

record batch_export_run =
  r_id :: uuid
  r_team :: "team option"
  r_batch_export_id :: uuid
  r_workflow_id :: "string option"
  r_run_id :: "string option"
  r_status :: "status option"
  r_data_interval_start :: "datetime option"
  r_data_interval_end :: "datetime option"

section \<open>Destination workflows\<close>

text \<open>
  The dataclass \<^verbatim>\<open>S3BatchExportInputs\<close>: six fields without a default and six with one. Its
  constructor is called with keyword arguments only: explicit ones followed by the unpacked
  configuration mapping. Python raises TypeError when the mapping repeats an explicit keyword,
  when a keyword is not a field, and when a field without a default is not given.
\<close>

record S3BatchExportInputs =
  s3_bucket_name :: pyval
  s3_region :: pyval
  s3_key_template :: pyval
  s3_batch_window_size :: pyval
  s3_team_id :: pyval
  s3_batch_export_id :: pyval
  s3_table_name :: pyval
  s3_file_format :: pyval
  s3_partition_key :: pyval
  s3_aws_access_key_id :: pyval
  s3_aws_secret_access_key :: pyval
  s3_data_interval_end :: pyval

definition required_fields :: "string list" where
  "required_fields =
     [''bucket_name'', ''region'', ''key_template'', ''batch_window_size'', ''team_id'',
      ''batch_export_id'']"

definition default_fields :: kwargs where
  "default_fields =
     [(''table_name'', PStr ''events''), (''file_format'', PStr ''CSVWithNames''),
      (''partition_key'', PNone), (''aws_access_key_id'', PNone),
      (''aws_secret_access_key'', PNone), (''data_interval_end'', PNone)]"

definition field :: "kwargs \<Rightarrow> string \<Rightarrow> pyval" where
  "field kw k =
     (case map_of kw k of
        Some v \<Rightarrow> v
      | None \<Rightarrow> (case map_of default_fields k of Some v \<Rightarrow> v | None \<Rightarrow> PNone))"

definition mk_S3BatchExportInputs :: "kwargs \<Rightarrow> kwargs \<Rightarrow> error + S3BatchExportInputs" where
  "mk_S3BatchExportInputs explicit config =
     (let kw = explicit @ config in
      if list_ex (\<lambda>k. k \<in> set (map fst explicit)) (map fst config)
        then Inl (TypeError ''got multiple values for keyword argument'')
      else if list_ex (\<lambda>k. k \<notin> set (required_fields @ map fst default_fields)) (map fst kw)
        then Inl (TypeError ''got an unexpected keyword argument'')
      else if list_ex (\<lambda>k. k \<notin> set (map fst kw)) required_fields
        then Inl (TypeError ''missing required argument'')
      else Inr \<lparr>s3_bucket_name = field kw ''bucket_name'', s3_region = field kw ''region'',
                s3_key_template = field kw ''key_template'',
                s3_batch_window_size = field kw ''batch_window_size'',
                s3_team_id = field kw ''team_id'', s3_batch_export_id = field kw ''batch_export_id'',
                s3_table_name = field kw ''table_name'', s3_file_format = field kw ''file_format'',
                s3_partition_key = field kw ''partition_key'',
                s3_aws_access_key_id = field kw ''aws_access_key_id'',
                s3_aws_secret_access_key = field kw ''aws_secret_access_key'',
                s3_data_interval_end = field kw ''data_interval_end''\<rparr>)"

text \<open>\<^verbatim>\<open>dataclasses.asdict\<close>: the fields in declaration order.\<close>

definition asdict :: "S3BatchExportInputs \<Rightarrow> kwargs" where
  "asdict i =
     [(''bucket_name'', s3_bucket_name i), (''region'', s3_region i),
      (''key_template'', s3_key_template i), (''batch_window_size'', s3_batch_window_size i),
      (''team_id'', s3_team_id i), (''batch_export_id'', s3_batch_export_id i),
      (''table_name'', s3_table_name i), (''file_format'', s3_file_format i),
      (''partition_key'', s3_partition_key i), (''aws_access_key_id'', s3_aws_access_key_id i),
      (''aws_secret_access_key'', s3_aws_secret_access_key i),
      (''data_interval_end'', s3_data_interval_end i)]"

text \<open>
  \<^verbatim>\<open>DESTINATION_WORKFLOWS\<close>: one entry, for the tag "S3". Subscripting the dictionary with
  another tag raises KeyError.
\<close>

definition DESTINATION_WORKFLOWS ::
  "string \<Rightarrow> (string \<times> (kwargs \<Rightarrow> kwargs \<Rightarrow> error + S3BatchExportInputs)) option" where
  "DESTINATION_WORKFLOWS tag =
     (if tag = ''S3'' then Some (''s3-export'', mk_S3BatchExportInputs) else None)"

definition lookup_workflow ::
  "string \<Rightarrow> error + (string \<times> (kwargs \<Rightarrow> kwargs \<Rightarrow> error + S3BatchExportInputs))" where
  "lookup_workflow tag =
     (case DESTINATION_WORKFLOWS tag of None \<Rightarrow> Inl (KeyError tag) | Some p \<Rightarrow> Inr p)"

section \<open>The world: relational store and workflow engine\<close>

subsection \<open>Engine values\<close>

text \<open>
  The values of \<^verbatim>\<open>temporalio.client\<close> that the service builds: a schedule is an action
  that starts a workflow, a specification (built empty) and a state.
\<close>

type_synonym search_attributes = "(string \<times> pyval list) list"

record ScheduleActionStartWorkflow =
  a_workflow :: string
  a_arg :: kwargs
  a_id :: string
  a_task_queue :: string
  a_search_attributes :: search_attributes

datatype ScheduleSpec = ScheduleSpec

record ScheduleState =
  s_note :: string
  s_paused :: bool

record Schedule =
  sch_action :: ScheduleActionStartWorkflow
  sch_spec :: ScheduleSpec
  sch_state :: ScheduleState

text \<open>The requests that reach the engine, in the order of the spec's external interface.\<close>

datatype request =
    CreateSchedule string Schedule search_attributes
  | PauseSchedule string "string option"
  | UnpauseSchedule string "string option"
  | DeleteSchedule string
  | DescribeSchedule string
  | ExecuteWorkflow string S3BatchExportInputs string string

text \<open>The schedule identifier a schedule request addresses, the execution id otherwise.\<close>

fun request_id :: "request \<Rightarrow> string" where
  "request_id (CreateSchedule i _ _) = i"
| "request_id (PauseSchedule i _) = i"
| "request_id (UnpauseSchedule i _) = i"
| "request_id (DeleteSchedule i) = i"
| "request_id (DescribeSchedule i) = i"
| "request_id (ExecuteWorkflow _ _ _ i) = i"

subsection \<open>The world\<close>

text \<open>
  The tables of the store, the schedules the engine holds, every request issued to the engine
  so far (oldest first), the engine calls whose coroutine was created and dropped without
  being awaited (they never reach the engine), whether the engine is out of reach (then every
  request fails with that message and changes nothing in the engine), and
  \<^verbatim>\<open>settings.TEMPORAL_TASK_QUEUE\<close>.
\<close>

record world =
  teams :: "team list"
  exports :: "batch_export list"
  runs :: "batch_export_run list"
  schedules :: "(string \<times> Schedule) list"
  requests :: "request list"
  never_awaited :: "request list"
  outage :: "string option"
  TEMPORAL_TASK_QUEUE :: string

subsection \<open>Store operations\<close>

text \<open>
  Modelled from the spec: the object manager of the missing models module, as the logical
  store operations of the spec (create, get by id, update filtered by id, the number of rows
  an update affected). A string compared with a UUID column matches the row whose id has that
  string form. An insert under a primary key already in the table raises IntegrityError.
\<close>

definition Team_objects_get :: "world \<Rightarrow> int \<Rightarrow> error + team" where
  "Team_objects_get w i =
     (case filter (\<lambda>t. t_id t = i) (teams w) of
        [] \<Rightarrow> Inl (DoesNotExist ''Team'')
      | [t] \<Rightarrow> Inr t
      | _ \<Rightarrow> Inl (MultipleObjectsReturned ''Team''))"

definition BatchExport_objects_get :: "world \<Rightarrow> string \<Rightarrow> error + batch_export" where
  "BatchExport_objects_get w i =
     (case filter (\<lambda>b. str_uuid (be_id b) = i) (exports w) of
        [] \<Rightarrow> Inl (DoesNotExist ''BatchExport'')
      | [b] \<Rightarrow> Inr b
      | _ \<Rightarrow> Inl (MultipleObjectsReturned ''BatchExport''))"

definition BatchExport_update_paused :: "world \<Rightarrow> string \<Rightarrow> bool \<Rightarrow> nat \<times> world" where
  "BatchExport_update_paused w i p =
     (length (filter (\<lambda>b. str_uuid (be_id b) = i) (exports w)),
      w\<lparr>exports := map (\<lambda>b. if str_uuid (be_id b) = i then b\<lparr>be_paused := p\<rparr> else b)
                        (exports w)\<rparr>)"

definition BatchExportRun_save :: "world \<Rightarrow> batch_export_run \<Rightarrow> error + world" where
  "BatchExportRun_save w r =
     (if r_id r \<in> set (map r_id (runs w)) then Inl (IntegrityError ''BatchExportRun'')
      else Inr (w\<lparr>runs := runs w @ [r]\<rparr>))"

definition BatchExportRun_update_status :: "world \<Rightarrow> uuid \<Rightarrow> status \<Rightarrow> nat \<times> world" where
  "BatchExportRun_update_status w i s =
     (length (filter (\<lambda>r. r_id r = i) (runs w)),
      w\<lparr>runs := map (\<lambda>r. if r_id r = i then r\<lparr>r_status := Some s\<rparr> else r) (runs w)\<rparr>)"

subsection \<open>Engine operations\<close>

text \<open>
  Modelled from the spec: the engine behind the client, as the logical operations of the spec's
  external interface. Every request is recorded. A create under an id in use is refused with
  ScheduleAlreadyExists; pause, unpause, delete and describe of an id the engine does not hold
  are refused with ScheduleNotFound; describe returns the schedule the engine holds.
\<close>

definition issue :: "world \<Rightarrow> request \<Rightarrow> world" where
  "issue w q = w\<lparr>requests := requests w @ [q]\<rparr>"

definition set_paused :: "bool \<Rightarrow> string option \<Rightarrow> Schedule \<Rightarrow> Schedule" where
  "set_paused p note s =
     s\<lparr>sch_state := \<lparr>s_note = (case note of None \<Rightarrow> s_note (sch_state s) | Some n \<Rightarrow> n),
                      s_paused = p\<rparr>\<rparr>"

definition engine_create_schedule ::
  "world \<Rightarrow> string \<Rightarrow> Schedule \<Rightarrow> search_attributes \<Rightarrow> (error + unit) \<times> world" where
  "engine_create_schedule w i s sa =
     (let w1 = issue w (CreateSchedule i s sa) in
      case outage w of
        Some m \<Rightarrow> (Inl (RPCError m), w1)
      | None \<Rightarrow>
          if i \<in> set (map fst (schedules w)) then (Inl (ScheduleAlreadyExists i), w1)
          else (Inr (), w1\<lparr>schedules := schedules w @ [(i, s)]\<rparr>))"

definition engine_set_paused ::
  "world \<Rightarrow> request \<Rightarrow> string \<Rightarrow> bool \<Rightarrow> string option \<Rightarrow> (error + unit) \<times> world" where
  "engine_set_paused w q i p note =
     (let w1 = issue w q in
      case outage w of
        Some m \<Rightarrow> (Inl (RPCError m), w1)
      | None \<Rightarrow>
          if i \<in> set (map fst (schedules w))
          then (Inr (), w1\<lparr>schedules := map (\<lambda>(j, s). if j = i then (j, set_paused p note s)
                                                            else (j, s)) (schedules w)\<rparr>)
          else (Inl (ScheduleNotFound i), w1))"

definition engine_delete_schedule :: "world \<Rightarrow> string \<Rightarrow> (error + unit) \<times> world" where
  "engine_delete_schedule w i =
     (let w1 = issue w (DeleteSchedule i) in
      case outage w of
        Some m \<Rightarrow> (Inl (RPCError m), w1)
      | None \<Rightarrow>
          if i \<in> set (map fst (schedules w))
          then (Inr (), w1\<lparr>schedules := filter (\<lambda>(j, s). j \<noteq> i) (schedules w)\<rparr>)
          else (Inl (ScheduleNotFound i), w1))"

definition engine_describe_schedule :: "world \<Rightarrow> string \<Rightarrow> (error + Schedule) \<times> world" where
  "engine_describe_schedule w i =
     (let w1 = issue w (DescribeSchedule i) in
      case outage w of
        Some m \<Rightarrow> (Inl (RPCError m), w1)
      | None \<Rightarrow>
          (case map_of (schedules w) i of
             None \<Rightarrow> (Inl (ScheduleNotFound i), w1)
           | Some s \<Rightarrow> (Inr s, w1)))"

section \<open>The service\<close>

subsection \<open>Schedule wrappers\<close>

definition create_schedule ::
  "world \<Rightarrow> string \<Rightarrow> Schedule \<Rightarrow> search_attributes \<Rightarrow> (error + unit) \<times> world" where
  "create_schedule w i schedule sa = engine_create_schedule w i schedule sa"

definition pause_schedule :: "world \<Rightarrow> string \<Rightarrow> string option \<Rightarrow> (error + unit) \<times> world" where
  "pause_schedule w schedule_id note =
     engine_set_paused w (PauseSchedule schedule_id note) schedule_id True note"

definition unpause_schedule :: "world \<Rightarrow> string \<Rightarrow> string option \<Rightarrow> (error + unit) \<times> world" where
  "unpause_schedule w schedule_id note =
     engine_set_paused w (UnpauseSchedule schedule_id note) schedule_id False note"

definition delete_schedule :: "world \<Rightarrow> string \<Rightarrow> (error + unit) \<times> world" where
  "delete_schedule w schedule_id = engine_delete_schedule w schedule_id"

definition describe_schedule :: "world \<Rightarrow> string \<Rightarrow> (error + Schedule) \<times> world" where
  "describe_schedule w schedule_id = engine_describe_schedule w schedule_id"

subsection \<open>Pause and unpause\<close>

text \<open>
  The update of the paused column comes first and its row count is dropped; the engine call
  follows, and what it raises is what the caller gets.
\<close>

definition pause_batch_export :: "world \<Rightarrow> string \<Rightarrow> string option \<Rightarrow> (error + unit) \<times> world" where
  "pause_batch_export w batch_export_id note =
     (let (n, w1) = BatchExport_update_paused w batch_export_id True
      in pause_schedule w1 batch_export_id note)"

definition unpause_batch_export :: "world \<Rightarrow> string \<Rightarrow> string option \<Rightarrow> (error + unit) \<times> world" where
  "unpause_batch_export w batch_export_id note =
     (let (n, w1) = BatchExport_update_paused w batch_export_id False
      in unpause_schedule w1 batch_export_id note)"

subsection \<open>Backfill\<close>

text \<open>
  The primary key that the new run row draws (a random UUID) is an argument. The statements
  run in the order of the source: the export is read, the run row is created, the registry is
  subscripted, \<^verbatim>\<open>sync_connect\<close> hands out the client of the world's engine, the workflow input
  is built, \<^verbatim>\<open>temporal.execute_workflow\<close> is called, the run is returned.

  Every other engine call of the file is a coroutine function under \<^verbatim>\<open>async_to_sync\<close> that
  awaits the client. This one calls the client's coroutine function directly and drops what it
  returns: the arguments are evaluated and the coroutine object is created, but it is never
  awaited, so no request is issued and nothing the engine would answer can be raised.
\<close>

definition opt_datetime :: "datetime option \<Rightarrow> pyval" where
  "opt_datetime d = (case d of None \<Rightarrow> PNone | Some t \<Rightarrow> PDatetime t)"

definition BatchExportRun_objects_create ::
  "world \<Rightarrow> uuid \<Rightarrow> batch_export \<Rightarrow> datetime option \<Rightarrow> datetime option
     \<Rightarrow> error + (batch_export_run \<times> world)" where
  "BatchExportRun_objects_create w pk batch_export start_at end_at =
     (let run = \<lparr>r_id = pk, r_team = None, r_batch_export_id = be_id batch_export,
                 r_workflow_id = None, r_run_id = None, r_status = None,
                 r_data_interval_start = start_at, r_data_interval_end = end_at\<rparr>
      in case BatchExportRun_save w run of Inl e \<Rightarrow> Inl e | Inr w1 \<Rightarrow> Inr (run, w1))"

definition backfill_export ::
  "uuid \<Rightarrow> world \<Rightarrow> string \<Rightarrow> datetime option \<Rightarrow> datetime option
     \<Rightarrow> (error + batch_export_run) \<times> world" where
  "backfill_export pk w batch_export_id start_at end_at =
     (case BatchExport_objects_get w batch_export_id of
        Inl e \<Rightarrow> (Inl e, w)
      | Inr batch_export \<Rightarrow>
          (case BatchExportRun_objects_create w pk batch_export start_at end_at of
             Inl e \<Rightarrow> (Inl e, w)
           | Inr (backfill_run, w1) \<Rightarrow>
               (case lookup_workflow (d_type (be_destination batch_export)) of
                  Inl e \<Rightarrow> (Inl e, w1)
                | Inr (workflow, inputs) \<Rightarrow>
                    (case inputs [(''team_id'', PUUID (be_id batch_export)),
                                  (''batch_export_id'', PStr batch_export_id),
                                  (''data_interval_end'', opt_datetime end_at)]
                                 (d_config (be_destination batch_export)) of
                       Inl e \<Rightarrow> (Inl e, w1)
                     | Inr inp \<Rightarrow>
                         (Inr backfill_run,
                          w1\<lparr>never_awaited := never_awaited w1 @
                               [ExecuteWorkflow workflow inp (TEMPORAL_TASK_QUEUE w1)
                                  (str_uuid (r_id backfill_run))]\<rparr>)))))"

subsection \<open>Run bookkeeping\<close>

text \<open>
  \<^verbatim>\<open>datetime.fromisoformat\<close> is an argument (\<open>None\<close> where it raises ValueError), and so is
  the primary key the new row draws. \<^verbatim>\<open>run.save()\<close> of a fresh instance is an insert.
\<close>

definition create_batch_export_run ::
  "(string \<Rightarrow> datetime option) \<Rightarrow> uuid \<Rightarrow> world \<Rightarrow> int \<Rightarrow> string \<Rightarrow> string \<Rightarrow> uuid
     \<Rightarrow> string \<Rightarrow> string \<Rightarrow> (error + batch_export_run) \<times> world" where
  "create_batch_export_run fromisoformat pk w team_id workflow_id run_id batch_export_id
       data_interval_start data_interval_end =
     (case Team_objects_get w team_id of
        Inl e \<Rightarrow> (Inl e, w)
      | Inr team \<Rightarrow>
          (case fromisoformat data_interval_start of
             None \<Rightarrow> (Inl (ValueError ''Invalid isoformat string''), w)
           | Some s \<Rightarrow>
               (case fromisoformat data_interval_end of
                  None \<Rightarrow> (Inl (ValueError ''Invalid isoformat string''), w)
                | Some e \<Rightarrow>
                    (let run = \<lparr>r_id = pk, r_team = Some team,
                                r_batch_export_id = batch_export_id,
                                r_workflow_id = Some workflow_id, r_run_id = Some run_id,
                                r_status = Some STARTING,
                                r_data_interval_start = Some s,
                                r_data_interval_end = Some e\<rparr>
                     in case BatchExportRun_save w run of
                          Inl err \<Rightarrow> (Inl err, w)
                        | Inr w1 \<Rightarrow> (Inr run, w1)))))"

definition update_batch_export_run_status ::
  "world \<Rightarrow> uuid \<Rightarrow> status \<Rightarrow> (error + unit) \<times> world" where
  "update_batch_export_run_status w run_id status =
     (let (updated, w1) = BatchExportRun_update_status w run_id status
      in if updated = 0
         then (Inl (ValueError (''BatchExportRun with id '' @ str_uuid run_id @ '' not found.'')),
               w1)
         else (Inr (), w1))"

subsection \<open>Creating the schedule of a batch export\<close>

definition create_batch_export :: "world \<Rightarrow> batch_export \<Rightarrow> (error + unit) \<times> world" where
  "create_batch_export w batch_export =
     (case lookup_workflow (d_type (be_destination batch_export)) of
        Inl e \<Rightarrow> (Inl e, w)
      | Inr (workflow, workflow_inputs) \<Rightarrow>
          (let common_search_attributes =
                 [(''DestinationId'', [PStr (str_uuid (d_id (be_destination batch_export)))]),
                  (''DestinationType'', [PStr (d_type (be_destination batch_export))]),
                  (''TeamId'', [PInt (t_id (be_team batch_export))]),
                  (''TeamName'', [PStr (t_name (be_team batch_export))]),
                  (''BatchExportId'', [PStr (str_uuid (be_id batch_export))])];
               state =
                 \<lparr>s_note = ''Schedule created for BatchExport '' @ str_uuid (be_id batch_export)
                      @ '' to Destination '' @ str_uuid (d_id (be_destination batch_export))
                      @ '' in Team '' @ str_int (t_id (be_team batch_export)) @ ''.'',
                  s_paused = be_paused batch_export\<rparr>
           in case workflow_inputs [(''team_id'', PInt (t_id (be_team batch_export))),
                                    (''batch_export_id'', PStr (str_uuid (be_id batch_export)))]
                                   (d_config (be_destination batch_export)) of
                Inl e \<Rightarrow> (Inl e, w)
              | Inr inp \<Rightarrow>
                  create_schedule w (str_uuid (be_id batch_export))
                    \<lparr>sch_action =
                       \<lparr>a_workflow = workflow, a_arg = asdict inp,
                        a_id = str_uuid (be_id batch_export),
                        a_task_queue = TEMPORAL_TASK_QUEUE w,
                        a_search_attributes = common_search_attributes\<rparr>,
                     sch_spec = ScheduleSpec, sch_state = state\<rparr>
                    common_search_attributes))"

section \<open>Terminal statuses\<close>

text \<open>The spec's table marks three statuses terminal; the source has no such notion.\<close>

fun terminal :: "status \<Rightarrow> bool" where
  "terminal COMPLETED = True"
| "terminal FAILED = True"
| "terminal CANCELLED = True"
| "terminal _ = False"

section \<open>Notions used in the statements\<close>

text \<open>
  The rows of one workflow execution; the paused column after an update filtered by id; the
  row that a backfill creates and the keyword arguments it gives to the input constructor;
  the twelve field names of the input and the input built from accepted keyword arguments;
  the range check of the \<^verbatim>\<open>UUID\<close> constructor.
\<close>

definition runs_of_execution :: "world \<Rightarrow> string \<Rightarrow> string \<Rightarrow> batch_export_run list" where
  "runs_of_execution w workflow_id run_id =
     filter (\<lambda>r. r_workflow_id r = Some workflow_id \<and> r_run_id r = Some run_id) (runs w)"

definition set_paused_rows :: "string \<Rightarrow> bool \<Rightarrow> batch_export list \<Rightarrow> batch_export list" where
  "set_paused_rows i p bs = map (\<lambda>b. if str_uuid (be_id b) = i then b\<lparr>be_paused := p\<rparr> else b) bs"

definition backfill_row :: "uuid \<Rightarrow> batch_export \<Rightarrow> datetime option \<Rightarrow> datetime option \<Rightarrow> batch_export_run" where
  "backfill_row pk b start_at end_at =
     \<lparr>r_id = pk, r_team = None, r_batch_export_id = be_id b, r_workflow_id = None,
      r_run_id = None, r_status = None, r_data_interval_start = start_at,
      r_data_interval_end = end_at\<rparr>"

definition backfill_kwargs :: "batch_export \<Rightarrow> string \<Rightarrow> datetime option \<Rightarrow> kwargs" where
  "backfill_kwargs b i end_at =
     [(''team_id'', PUUID (be_id b)), (''batch_export_id'', PStr i),
      (''data_interval_end'', opt_datetime end_at)]"

definition field_names :: "string list" where
  "field_names = required_fields @ map fst default_fields"

definition inputs_of :: "kwargs \<Rightarrow> S3BatchExportInputs" where
  "inputs_of kw =
     \<lparr>s3_bucket_name = field kw ''bucket_name'', s3_region = field kw ''region'',
      s3_key_template = field kw ''key_template'',
      s3_batch_window_size = field kw ''batch_window_size'',
      s3_team_id = field kw ''team_id'', s3_batch_export_id = field kw ''batch_export_id'',
      s3_table_name = field kw ''table_name'', s3_file_format = field kw ''file_format'',
      s3_partition_key = field kw ''partition_key'',
      s3_aws_access_key_id = field kw ''aws_access_key_id'',
      s3_aws_secret_access_key = field kw ''aws_secret_access_key'',
      s3_data_interval_end = field kw ''data_interval_end''\<rparr>"

fun valid_uuid :: "uuid \<Rightarrow> bool" where
  "valid_uuid (UUID n) = (n < 2 ^ 128)"

section \<open>Sample worlds\<close>

text \<open>
  The concrete inputs at which the statements below are evaluated: one team, the batch export
  \<open>E1\<close> to an S3 destination (and its paused twin), the batch export \<open>E2\<close> whose
  destination type has no entry in the registry, an engine without schedules that is within
  reach or not, and run tables that are empty or hold one run.
\<close>

definition fromisoformat_2023 :: "string \<Rightarrow> datetime option" where
  "fromisoformat_2023 s =
     (if s = ''2023-01-01T00:00:00'' then Some (Datetime 1672531200)
      else if s = ''2023-01-02T00:00:00'' then Some (Datetime 1672617600)
      else None)"

definition team1 :: team where
  "team1 = \<lparr>t_id = 1, t_name = ''acme''\<rparr>"

definition s3_destination :: destination where
  "s3_destination =
     \<lparr>d_id = UUID 7, d_type = ''S3'',
      d_config = [(''bucket_name'', PStr ''bucket''), (''region'', PStr ''us-east-1''),
                  (''key_template'', PStr ''events/''), (''batch_window_size'', PInt 3600)]\<rparr>"

definition E1 :: batch_export where
  "E1 = \<lparr>be_id = UUID 225, be_team = team1, be_destination = s3_destination, be_paused = False\<rparr>"

definition E1_id :: string where
  "E1_id = ''00000000-0000-0000-0000-0000000000e1''"

definition E1_paused :: batch_export where
  "E1_paused = E1\<lparr>be_paused := True\<rparr>"

definition E2 :: batch_export where
  "E2 = \<lparr>be_id = UUID 226, be_team = team1,
          be_destination = \<lparr>d_id = UUID 8, d_type = ''Snowflake'', d_config = []\<rparr>,
          be_paused = False\<rparr>"

definition E2_id :: string where
  "E2_id = ''00000000-0000-0000-0000-0000000000e2''"

definition world0 :: world where
  "world0 = \<lparr>teams = [team1], exports = [E1], runs = [], schedules = [], requests = [],
             never_awaited = [], outage = None, TEMPORAL_TASK_QUEUE = ''batch-exports''\<rparr>"

definition world_down :: world where
  "world_down = world0\<lparr>outage := Some ''engine unavailable''\<rparr>"

definition world_sf :: world where
  "world_sf = world0\<lparr>exports := [E1, E2]\<rparr>"

definition run10 :: batch_export_run where
  "run10 = \<lparr>r_id = UUID 10, r_team = Some team1, r_batch_export_id = UUID 225,
            r_workflow_id = Some ''s3-export-E1'', r_run_id = Some ''run-1'',
            r_status = Some STARTING, r_data_interval_start = Some (Datetime 1672531200),
            r_data_interval_end = Some (Datetime 1672617600)\<rparr>"

definition world_done :: world where
  "world_done = world0\<lparr>runs := [run10\<lparr>r_status := Some COMPLETED\<rparr>]\<rparr>"

definition E1_backfill_inputs :: S3BatchExportInputs where
  "E1_backfill_inputs =
     \<lparr>s3_bucket_name = PStr ''bucket'', s3_region = PStr ''us-east-1'',
      s3_key_template = PStr ''events/'', s3_batch_window_size = PInt 3600,
      s3_team_id = PUUID (UUID 225), s3_batch_export_id = PStr E1_id,
      s3_table_name = PStr ''events'', s3_file_format = PStr ''CSVWithNames'',
      s3_partition_key = PNone, s3_aws_access_key_id = PNone,
      s3_aws_secret_access_key = PNone,
      s3_data_interval_end = PDatetime (Datetime 1672617600)\<rparr>"

section \<open>Facts about the model\<close>

subsection \<open>String forms of identifiers\<close>

lemma hexchar_inject:
  assumes "a < 16" and "b < 16" and "hexchar a = hexchar b"
  shows "a = b"
proof -
  have d: "distinct ''0123456789abcdef''"
    by simp
  have l: "length ''0123456789abcdef'' = 16"
    by simp
  from assms show ?thesis
    unfolding hexchar_def using nth_eq_iff_index_eq [OF d, of a b] l by simp
qed

lemma length_hex_digits: "length (hex_digits k n) = k"
  by (induction k arbitrary: n) simp_all

lemma hex_digits_inject:
  "hex_digits k n = hex_digits k m \<Longrightarrow> n mod 16 ^ k = m mod 16 ^ k"
proof (induction k arbitrary: n m)
  case 0
  then show ?case by simp
next
  case (Suc k)
  from Suc.prems have hi: "hex_digits k (n div 16) = hex_digits k (m div 16)"
    and lo: "hexchar (n mod 16) = hexchar (m mod 16)"
    by simp_all
  from lo have lo': "n mod 16 = m mod 16"
    by (intro hexchar_inject) simp_all
  from Suc.IH [OF hi] have hi': "n div 16 mod 16 ^ k = m div 16 mod 16 ^ k" .
  have "n mod 16 ^ Suc k = 16 * (n div 16 mod 16 ^ k) + n mod 16"
    by (simp add: mod_mult2_eq)
  moreover have "m mod 16 ^ Suc k = 16 * (m div 16 mod 16 ^ k) + m mod 16"
    by (simp add: mod_mult2_eq)
  ultimately show ?case
    using lo' hi' by simp
qed

lemma regroup:
  "take 8 h @ take 4 (drop 8 h) @ take 4 (drop 12 h) @ take 4 (drop 16 h) @ drop 20 h = h"
proof -
  have 1: "take 4 (drop 16 h) @ drop 20 h = drop 16 h"
    using append_take_drop_id [of 4 "drop 16 h"] by simp
  have 2: "take 4 (drop 12 h) @ drop 16 h = drop 12 h"
    using append_take_drop_id [of 4 "drop 12 h"] by simp
  have 3: "take 4 (drop 8 h) @ drop 12 h = drop 8 h"
    using append_take_drop_id [of 4 "drop 8 h"] by simp
  show ?thesis
    by (simp only: 1 2 3 append_take_drop_id)
qed

lemma str_uuid_inject:
  assumes "str_uuid (UUID n) = str_uuid (UUID m)"
  shows "n mod 2 ^ 128 = m mod 2 ^ 128"
proof -
  let ?h = "hex_digits 32 n" and ?g = "hex_digits 32 m"
  have len: "length ?h = 32" "length ?g = 32"
    by (simp_all only: length_hex_digits)
  from assms have
    "take 8 ?h @ ''-'' @ take 4 (drop 8 ?h) @ ''-'' @ take 4 (drop 12 ?h) @ ''-'' @
       take 4 (drop 16 ?h) @ ''-'' @ drop 20 ?h
     = take 8 ?g @ ''-'' @ take 4 (drop 8 ?g) @ ''-'' @ take 4 (drop 12 ?g) @ ''-'' @
       take 4 (drop 16 ?g) @ ''-'' @ drop 20 ?g"
    by (simp only: str_uuid.simps Let_def)
  then have "take 8 ?h = take 8 ?g \<and> take 4 (drop 8 ?h) = take 4 (drop 8 ?g)
      \<and> take 4 (drop 12 ?h) = take 4 (drop 12 ?g) \<and> take 4 (drop 16 ?h) = take 4 (drop 16 ?g)
      \<and> drop 20 ?h = drop 20 ?g"
    using len by (simp add: append_eq_append_conv)
  then have "take 8 ?h @ take 4 (drop 8 ?h) @ take 4 (drop 12 ?h) @ take 4 (drop 16 ?h) @ drop 20 ?h
     = take 8 ?g @ take 4 (drop 8 ?g) @ take 4 (drop 12 ?g) @ take 4 (drop 16 ?g) @ drop 20 ?g"
    by (simp only:)
  then have "?h = ?g"
    by (simp only: regroup)
  then have "n mod 16 ^ 32 = m mod 16 ^ 32"
    by (rule hex_digits_inject)
  moreover have "(16::nat) ^ 32 = 2 ^ 128"
    by simp
  ultimately show ?thesis
    by (simp only:)
qed

lemma str_uuid_distinct:
  assumes "valid_uuid u" and "valid_uuid v" and "u \<noteq> v"
  shows "str_uuid u \<noteq> str_uuid v"
proof
  assume eq: "str_uuid u = str_uuid v"
  obtain n m where u: "u = UUID n" and v: "v = UUID m"
    by (metis uuid.exhaust)
  from eq have "str_uuid (UUID n) = str_uuid (UUID m)"
    unfolding u v .
  then have "n mod 2 ^ 128 = m mod 2 ^ 128"
    by (rule str_uuid_inject)
  moreover from assms(1,2) have "n < 2 ^ 128" and "m < 2 ^ 128"
    unfolding u v valid_uuid.simps .
  ultimately have "n = m"
    by (simp only: mod_less)
  with assms(3) show False
    unfolding u v by blast
qed

lemma str_uuid_E1: "str_uuid (UUID 225) = E1_id"
  unfolding E1_id_def by code_simp

lemma str_uuid_E2: "str_uuid (UUID 226) = E2_id"
  unfolding E2_id_def by code_simp

lemma str_uuid_ff: "str_uuid (UUID 255) = ''00000000-0000-0000-0000-0000000000ff''"
  by code_simp

subsection \<open>The input constructor\<close>

lemma mk_S3BatchExportInputs_eq:
  "mk_S3BatchExportInputs ex cfg =
     (if list_ex (\<lambda>k. k \<in> set (map fst ex)) (map fst cfg)
        then Inl (TypeError ''got multiple values for keyword argument'')
      else if list_ex (\<lambda>k. k \<notin> set field_names) (map fst (ex @ cfg))
        then Inl (TypeError ''got an unexpected keyword argument'')
      else if list_ex (\<lambda>k. k \<notin> set (map fst (ex @ cfg))) required_fields
        then Inl (TypeError ''missing required argument'')
      else Inr (inputs_of (ex @ cfg)))"
  unfolding mk_S3BatchExportInputs_def Let_def field_names_def inputs_of_def by (rule refl)

lemma asdict_inputs_of: "asdict (inputs_of kw) = map (\<lambda>k. (k, field kw k)) field_names"
  by (simp add: asdict_def inputs_of_def field_names_def required_fields_def default_fields_def)

subsection \<open>Store and engine operations\<close>

lemma map_no_match: "\<forall>x \<in> set xs. \<not> P x \<Longrightarrow> map (\<lambda>x. if P x then f x else x) xs = xs"
  by (induction xs) auto

lemma filter_no_match: "\<forall>x \<in> set xs. \<not> P x \<Longrightarrow> filter P xs = []"
  by (induction xs) auto

lemma set_paused_rows_no_match:
  "i \<notin> set (map (\<lambda>b. str_uuid (be_id b)) bs) \<Longrightarrow> set_paused_rows i p bs = bs"
  unfolding set_paused_rows_def by (induction bs) auto

lemma update_paused_no_match:
  assumes "i \<notin> set (map (\<lambda>b. str_uuid (be_id b)) (exports w))"
  shows "BatchExport_update_paused w i p = (0, w)"
proof -
  have "filter (\<lambda>b. str_uuid (be_id b) = i) (exports w) = []"
    using assms by (auto simp: filter_empty_conv)
  moreover have "set_paused_rows i p (exports w) = exports w"
    using assms by (rule set_paused_rows_no_match)
  ultimately show ?thesis
    by (simp add: BatchExport_update_paused_def set_paused_rows_def)
qed

lemma update_paused_snd:
  "snd (BatchExport_update_paused w i p) = w\<lparr>exports := set_paused_rows i p (exports w)\<rparr>"
  by (simp add: BatchExport_update_paused_def set_paused_rows_def)

lemma unknown_uuid_no_match:
  assumes "valid_uuid u" and "\<forall>b \<in> set (exports w). valid_uuid (be_id b)"
      and "u \<notin> set (map be_id (exports w))"
  shows "str_uuid u \<notin> set (map (\<lambda>b. str_uuid (be_id b)) (exports w))"
proof
  assume "str_uuid u \<in> set (map (\<lambda>b. str_uuid (be_id b)) (exports w))"
  then obtain b where b: "b \<in> set (exports w)" and eq: "str_uuid u = str_uuid (be_id b)"
    by auto
  from b assms(3) have "u \<noteq> be_id b"
    by auto
  moreover from b assms(2) have "valid_uuid (be_id b)"
    by blast
  ultimately have "str_uuid u \<noteq> str_uuid (be_id b)"
    using assms(1) by (intro str_uuid_distinct)
  with eq show False
    by blast
qed

lemma engine_set_paused_requests:
  "requests (snd (engine_set_paused w q i p note)) = requests w @ [q]"
  by (simp add: engine_set_paused_def issue_def Let_def split: option.splits)

lemma engine_set_paused_exports:
  "exports (snd (engine_set_paused w q i p note)) = exports w"
  by (simp add: engine_set_paused_def issue_def Let_def split: option.splits)

lemma engine_set_paused_fst:
  "fst (engine_set_paused (w\<lparr>exports := bs\<rparr>) q i p note) = fst (engine_set_paused w q i p note)"
  by (simp add: engine_set_paused_def issue_def Let_def split: option.splits)

lemma engine_set_paused_outage:
  "outage w = Some m \<Longrightarrow> engine_set_paused w q i p note = (Inl (RPCError m), issue w q)"
  by (simp add: engine_set_paused_def Let_def)

lemma pause_batch_export_eq:
  "pause_batch_export w i note =
     pause_schedule (w\<lparr>exports := set_paused_rows i True (exports w)\<rparr>) i note"
  by (simp add: pause_batch_export_def BatchExport_update_paused_def set_paused_rows_def)

lemma unpause_batch_export_eq:
  "unpause_batch_export w i note =
     unpause_schedule (w\<lparr>exports := set_paused_rows i False (exports w)\<rparr>) i note"
  by (simp add: unpause_batch_export_def BatchExport_update_paused_def set_paused_rows_def)

lemma objects_create_fresh:
  "pk \<notin> set (map r_id (runs w)) \<Longrightarrow>
   BatchExportRun_objects_create w pk b s e
     = Inr (backfill_row pk b s e, w\<lparr>runs := runs w @ [backfill_row pk b s e]\<rparr>)"
  by (simp add: BatchExportRun_objects_create_def BatchExportRun_save_def backfill_row_def
        Let_def)

lemma r_id_backfill_row: "r_id (backfill_row pk b s e) = pk"
  by (simp add: backfill_row_def)

lemma backfill_unregistered_world:
  assumes "BatchExport_objects_get w i = Inr b"
      and "DESTINATION_WORKFLOWS (d_type (be_destination b)) = None"
      and "pk \<notin> set (map r_id (runs w))"
  shows "backfill_export pk w i s e =
           (Inl (KeyError (d_type (be_destination b))),
            w\<lparr>runs := runs w @ [backfill_row pk b s e]\<rparr>)"
  using assms
  by (simp add: backfill_export_def objects_create_fresh lookup_workflow_def)

lemma backfill_export_engine:
  "requests (snd (backfill_export pk w i s e)) = requests w
   \<and> schedules (snd (backfill_export pk w i s e)) = schedules w"
  by (simp add: backfill_export_def BatchExportRun_objects_create_def BatchExportRun_save_def
        Let_def split: sum.splits prod.splits)

lemma backfill_export_registered:
  assumes "BatchExport_objects_get w i = Inr b"
      and "DESTINATION_WORKFLOWS (d_type (be_destination b)) = Some (workflow, inputs)"
      and "pk \<notin> set (map r_id (runs w))"
  shows "backfill_export pk w i s e =
           (case inputs (backfill_kwargs b i e) (d_config (be_destination b)) of
              Inl err \<Rightarrow> (Inl err, w\<lparr>runs := runs w @ [backfill_row pk b s e]\<rparr>)
            | Inr inp \<Rightarrow>
                (Inr (backfill_row pk b s e),
                 w\<lparr>runs := runs w @ [backfill_row pk b s e],
                   never_awaited := never_awaited w @
                     [ExecuteWorkflow workflow inp (TEMPORAL_TASK_QUEUE w) (str_uuid pk)]\<rparr>))"
  using assms
  by (simp add: backfill_export_def objects_create_fresh lookup_workflow_def
        backfill_kwargs_def backfill_row_def split: sum.splits)

subsection \<open>What a call that returns has done\<close>

lemma create_batch_export_run_Inr:
  assumes "create_batch_export_run f pk w t wid rid b s e = (Inr r, w1)"
  shows "w1 = w\<lparr>runs := runs w @ [r]\<rparr> \<and> r_id r = pk \<and> pk \<notin> set (map r_id (runs w))
         \<and> r_workflow_id r = Some wid \<and> r_run_id r = Some rid \<and> r_status r = Some STARTING"
  using assms
  by (auto simp: create_batch_export_run_def BatchExportRun_save_def Let_def
           split: sum.splits option.splits if_splits)

lemma create_batch_export_requests:
  "requests (snd (create_batch_export w b)) = requests w
   \<or> (\<exists>s sa. requests (snd (create_batch_export w b))
                = requests w @ [CreateSchedule (str_uuid (be_id b)) s sa]
              \<and> a_id (sch_action s) = str_uuid (be_id b))"
  by (auto simp: create_batch_export_def create_schedule_def engine_create_schedule_def
        issue_def Let_def split: sum.splits option.splits prod.splits)

lemma create_batch_export_Inr:
  assumes "create_batch_export w b = (Inr (), w1)"
  shows "outage w1 = None \<and> str_uuid (be_id b) \<notin> set (map fst (schedules w))
         \<and> (\<exists>s sa. schedules w1 = schedules w @ [(str_uuid (be_id b), s)]
                \<and> requests w1 = requests w @ [CreateSchedule (str_uuid (be_id b)) s sa]
                \<and> s_paused (sch_state s) = be_paused b
                \<and> a_id (sch_action s) = str_uuid (be_id b))"
  using assms
  by (auto simp: create_batch_export_def create_schedule_def engine_create_schedule_def
        issue_def Let_def split: sum.splits option.splits prod.splits if_splits)

subsection \<open>Evaluation at the sample worlds\<close>

lemmas demo_defs = world0_def team1_def E1_def s3_destination_def fromisoformat_2023_def

lemmas mk_eval = mk_S3BatchExportInputs_eq inputs_of_def field_def field_names_def
  required_fields_def default_fields_def

lemma get_E1: "BatchExport_objects_get world0 E1_id = Inr E1"
  by (simp add: BatchExport_objects_get_def demo_defs str_uuid_E1)

lemma get_E2: "BatchExport_objects_get world_sf E2_id = Inr E2"
  by (simp add: BatchExport_objects_get_def world_sf_def demo_defs E2_def str_uuid_E1
        str_uuid_E2 E1_id_def E2_id_def)

lemma registered_E1:
  "DESTINATION_WORKFLOWS (d_type (be_destination E1)) = Some (''s3-export'', mk_S3BatchExportInputs)"
  by (simp add: DESTINATION_WORKFLOWS_def E1_def s3_destination_def)

lemma fresh_20: "UUID 20 \<notin> set (map r_id (runs world0))"
  by (simp add: world0_def)

lemma inputs_E1:
  "mk_S3BatchExportInputs (backfill_kwargs E1 E1_id (Some (Datetime 1672617600)))
     (d_config (be_destination E1)) = Inr E1_backfill_inputs"
  by (simp add: mk_eval backfill_kwargs_def opt_datetime_def E1_def s3_destination_def
        E1_backfill_inputs_def)

lemma backfill_E1_eval:
  "backfill_export (UUID 20) world0 E1_id (Some (Datetime 1672531200)) (Some (Datetime 1672617600))
   = (Inr (backfill_row (UUID 20) E1 (Some (Datetime 1672531200)) (Some (Datetime 1672617600))),
      world0\<lparr>runs := [(backfill_row (UUID 20) E1 (Some (Datetime 1672531200)) (Some (Datetime 1672617600)))],
              never_awaited := [ExecuteWorkflow ''s3-export'' E1_backfill_inputs
                                  ''batch-exports'' (str_uuid (UUID 20))]\<rparr>)"
proof -
  have w0: "runs world0 = []" "never_awaited world0 = []"
    "TEMPORAL_TASK_QUEUE world0 = ''batch-exports''"
    by (simp_all add: world0_def)
  show ?thesis
    by (simp add: backfill_export_registered [OF get_E1 registered_E1 fresh_20] inputs_E1 w0)
qed

lemma create_E1_paused_fst: "fst (create_batch_export world0 E1_paused) = Inr ()"
proof -
  have mk: "\<exists>inp. mk_S3BatchExportInputs
              [(''team_id'', PInt (t_id (be_team E1_paused))),
               (''batch_export_id'', PStr (str_uuid (be_id E1_paused)))]
              (d_config (be_destination E1_paused)) = Inr inp"
    by (simp add: mk_eval E1_paused_def E1_def s3_destination_def)
  have ty: "d_type (be_destination E1_paused) = ''S3''"
    by (simp add: E1_paused_def E1_def s3_destination_def)
  have w0: "outage world0 = None" "schedules world0 = []"
    by (simp_all add: world0_def)
  from mk obtain inp where "mk_S3BatchExportInputs
              [(''team_id'', PInt (t_id (be_team E1_paused))),
               (''batch_export_id'', PStr (str_uuid (be_id E1_paused)))]
              (d_config (be_destination E1_paused)) = Inr inp"
    by blast
  then show ?thesis
    by (simp add: create_batch_export_def lookup_workflow_def DESTINATION_WORKFLOWS_def ty
          create_schedule_def engine_create_schedule_def issue_def w0 Let_def)
qed

lemma create_E1_paused: 
  "create_batch_export world0 E1_paused = (Inr (), snd (create_batch_export world0 E1_paused))"
  using create_E1_paused_fst by (metis prod.collapse)

section \<open>Run bookkeeping\<close>

text \<open>
  Claim C1 says that two calls of \<^verbatim>\<open>create_batch_export_run\<close> with the same workflow id and
  run id leave one run record, the second call observing the record of the first. The function
  never looks for an existing record: it reads the team, builds a row and inserts it. At the
  sample world two calls with the same arguments, each drawing its own primary key, leave two
  rows that carry the pair.
\<close>

theorem create_run_twice_counterexample:
  "length (runs_of_execution
     (snd (create_batch_export_run fromisoformat_2023 (UUID 11)
        (snd (create_batch_export_run fromisoformat_2023 (UUID 10) world0 1 ''s3-export-E1''
                ''run-1'' (UUID 225) ''2023-01-01T00:00:00'' ''2023-01-02T00:00:00''))
        1 ''s3-export-E1'' ''run-1'' (UUID 225) ''2023-01-01T00:00:00'' ''2023-01-02T00:00:00''))
     ''s3-export-E1'' ''run-1'') = 2"
  by (simp add: create_batch_export_run_def Team_objects_get_def BatchExportRun_save_def Let_def
        runs_of_execution_def demo_defs)

text \<open>
  C1 as amended: every call that returns has inserted one new row, so two calls with the same
  workflow id, run id and other arguments that both return leave two new rows with distinct
  primary keys, and the number of rows that carry the pair has grown by two.
\<close>

theorem create_run_twice:
  assumes "create_batch_export_run f pk1 w t wid rid b s e = (Inr r1, w1)"
      and "create_batch_export_run f pk2 w1 t wid rid b s e = (Inr r2, w2)"
  shows "runs w2 = runs w @ [r1, r2] \<and> r_id r1 \<noteq> r_id r2
         \<and> length (runs_of_execution w2 wid rid) = length (runs_of_execution w wid rid) + 2"
proof -
  note a = create_batch_export_run_Inr [OF assms(1)]
  note b = create_batch_export_run_Inr [OF assms(2)]
  from a b show ?thesis
    by (auto simp: runs_of_execution_def)
qed

theorem create_run_twice_witness:
  "runs (world0\<lparr>runs := [run10, run10\<lparr>r_id := UUID 11\<rparr>]\<rparr>) = runs world0 @ [run10, run10\<lparr>r_id := UUID 11\<rparr>]
   \<and> r_id run10 \<noteq> r_id (run10\<lparr>r_id := UUID 11\<rparr>)
   \<and> length (runs_of_execution (world0\<lparr>runs := [run10, run10\<lparr>r_id := UUID 11\<rparr>]\<rparr>) ''s3-export-E1'' ''run-1'')
       = length (runs_of_execution world0 ''s3-export-E1'' ''run-1'') + 2"
proof -
  have 1: "create_batch_export_run fromisoformat_2023 (UUID 10) world0 1 ''s3-export-E1''
             ''run-1'' (UUID 225) ''2023-01-01T00:00:00'' ''2023-01-02T00:00:00''
           = (Inr run10, world0\<lparr>runs := [run10]\<rparr>)"
    by (simp add: create_batch_export_run_def Team_objects_get_def BatchExportRun_save_def Let_def
          demo_defs run10_def)
  have 2: "create_batch_export_run fromisoformat_2023 (UUID 11) (world0\<lparr>runs := [run10]\<rparr>) 1
             ''s3-export-E1'' ''run-1'' (UUID 225) ''2023-01-01T00:00:00'' ''2023-01-02T00:00:00''
           = (Inr (run10\<lparr>r_id := UUID 11\<rparr>), world0\<lparr>runs := [run10, run10\<lparr>r_id := UUID 11\<rparr>]\<rparr>)"
    by (simp add: create_batch_export_run_def Team_objects_get_def BatchExportRun_save_def Let_def
          demo_defs run10_def)
  show ?thesis
    by (rule create_run_twice [OF 1 2])
qed

text \<open>
  Claim C2 says that a status update of a run in a terminal status leaves the stored status
  alone. The update filters by id only, so it overwrites a terminal status as any other: the
  COMPLETED run of the sample world becomes RUNNING.
\<close>

theorem update_run_status_counterexample:
  "terminal COMPLETED \<and>
   map r_status (runs world_done) = [Some COMPLETED] \<and>
   update_batch_export_run_status world_done (UUID 10) RUNNING =
     (Inr (), world_done\<lparr>runs := [run10\<lparr>r_status := Some RUNNING\<rparr>]\<rparr>)"
  by (simp add: update_batch_export_run_status_def BatchExportRun_update_status_def
        world_done_def run10_def)

text \<open>
  C2 as amended: for a run id that a row has, \<^verbatim>\<open>update_batch_export_run_status\<close> returns
  normally and sets the status of every row with that id to the new status, whatever the
  current status of the row is, terminal or not.
\<close>

theorem update_run_status_overwrites:
  assumes "r \<in> set (runs w)" and "r_id r = run_id"
  shows "update_batch_export_run_status w run_id s =
           (Inr (), w\<lparr>runs := map (\<lambda>x. if r_id x = run_id then x\<lparr>r_status := Some s\<rparr> else x)
                                  (runs w)\<rparr>)
         \<and> r\<lparr>r_status := Some s\<rparr> \<in> set (runs (snd (update_batch_export_run_status w run_id s)))"
proof -
  from assms have "r \<in> set (filter (\<lambda>x. r_id x = run_id) (runs w))"
    by simp
  then have "filter (\<lambda>x. r_id x = run_id) (runs w) \<noteq> []"
    by (metis empty_iff empty_set)
  then have 1: "update_batch_export_run_status w run_id s =
           (Inr (), w\<lparr>runs := map (\<lambda>x. if r_id x = run_id then x\<lparr>r_status := Some s\<rparr> else x)
                                  (runs w)\<rparr>)"
    by (simp add: update_batch_export_run_status_def BatchExportRun_update_status_def)
  have "(\<lambda>x. if r_id x = run_id then x\<lparr>r_status := Some s\<rparr> else x) r \<in>
          set (map (\<lambda>x. if r_id x = run_id then x\<lparr>r_status := Some s\<rparr> else x) (runs w))"
    using assms(1) by (simp only: set_map image_eqI)
  with assms(2) 1 show ?thesis
    by simp
qed

theorem update_run_status_overwrites_witness:
  "update_batch_export_run_status world_done (UUID 10) STARTING =
     (Inr (), world_done\<lparr>runs := [run10\<lparr>r_status := Some STARTING\<rparr>]\<rparr>)
   \<and> run10\<lparr>r_status := Some STARTING\<rparr> \<in>
        set (runs (snd (update_batch_export_run_status world_done (UUID 10) STARTING)))"
proof -
  have 1: "run10\<lparr>r_status := Some COMPLETED\<rparr> \<in> set (runs world_done)"
    by (simp add: world_done_def)
  have 2: "r_id (run10\<lparr>r_status := Some COMPLETED\<rparr>) = UUID 10"
    by (simp add: run10_def)
  show ?thesis
    using update_run_status_overwrites [OF 1 2, of STARTING]
    by (simp add: world_done_def run10_def)
qed

text \<open>
  Claim C6: for a run id that no row of the run table has, \<^verbatim>\<open>update_batch_export_run_status\<close>
  raises the not-found error (the ValueError that the source raises when the update affected
  no row, the spec's RunNotFound) and leaves the store, and the whole world, as it was: no row
  is created.
\<close>

theorem update_missing_run:
  assumes "run_id \<notin> set (map r_id (runs w))"
  shows "update_batch_export_run_status w run_id s =
           (Inl (ValueError (''BatchExportRun with id '' @ str_uuid run_id @ '' not found.'')), w)"
proof -
  from assms have none: "\<forall>r \<in> set (runs w). \<not> r_id r = run_id"
    by auto
  have "map (\<lambda>r. if r_id r = run_id then r\<lparr>r_status := Some s\<rparr> else r) (runs w) = runs w"
    using none by (rule map_no_match)
  moreover have "filter (\<lambda>r. r_id r = run_id) (runs w) = []"
    using none by (rule filter_no_match)
  ultimately show ?thesis
    by (simp add: update_batch_export_run_status_def BatchExportRun_update_status_def)
qed

theorem update_missing_run_witness:
  "UUID 99 \<notin> set (map r_id (runs world_done)) \<and>
   update_batch_export_run_status world_done (UUID 99) FAILED =
     (Inl (ValueError (''BatchExportRun with id '' @ str_uuid (UUID 99) @ '' not found.'')),
      world_done)"
proof -
  have h: "UUID 99 \<notin> set (map r_id (runs world_done))"
    by (simp add: world_done_def run10_def)
  show ?thesis
    using h update_missing_run [OF h, of FAILED] by simp
qed

section \<open>Pause and unpause\<close>

text \<open>
  Claim C5 says that a pause whose engine call fails keeps the local flag set and raises a
  distinct PartialSyncFailure. The flag is kept, but the source has no handler around the
  engine call: with the engine out of reach the caller of \<^verbatim>\<open>pause_batch_export\<close> gets the
  very error that any other engine call, here \<^verbatim>\<open>delete_schedule\<close>, raises for the same outage.
\<close>

theorem pause_engine_failure_counterexample:
  "fst (pause_batch_export world_down E1_id None) = Inl (RPCError ''engine unavailable'')
   \<and> fst (delete_schedule world_down E1_id) = Inl (RPCError ''engine unavailable'')
   \<and> map be_paused (exports (snd (pause_batch_export world_down E1_id None))) = [True]"
  by (simp add: pause_batch_export_def BatchExport_update_paused_def pause_schedule_def
        engine_set_paused_def delete_schedule_def engine_delete_schedule_def issue_def
        world_down_def demo_defs str_uuid_E1)

text \<open>
  C5 as amended: \<^verbatim>\<open>pause_batch_export\<close> first sets the paused flag of the rows with the given id
  to true and then issues exactly one pause request for the schedule with that same id; the
  flag stays set whatever the engine answers, and the caller gets exactly the outcome of the
  engine call, so an engine failure reaches the caller unchanged, not as a distinct error.
  \<^verbatim>\<open>unpause_batch_export\<close> does the same with the flag set to false.
\<close>

theorem pause_engine_failure:
  "exports (snd (pause_batch_export w i note)) = set_paused_rows i True (exports w)
   \<and> requests (snd (pause_batch_export w i note)) = requests w @ [PauseSchedule i note]
   \<and> fst (pause_batch_export w i note) = fst (pause_schedule w i note)
   \<and> (outage w = Some m \<longrightarrow> fst (pause_batch_export w i note) = Inl (RPCError m))
   \<and> exports (snd (unpause_batch_export w i note)) = set_paused_rows i False (exports w)
   \<and> requests (snd (unpause_batch_export w i note)) = requests w @ [UnpauseSchedule i note]
   \<and> fst (unpause_batch_export w i note) = fst (unpause_schedule w i note)
   \<and> (outage w = Some m \<longrightarrow> fst (unpause_batch_export w i note) = Inl (RPCError m))"
  by (simp add: pause_batch_export_eq unpause_batch_export_eq pause_schedule_def
        unpause_schedule_def engine_set_paused_requests engine_set_paused_exports
        engine_set_paused_fst engine_set_paused_outage)

theorem pause_engine_failure_witness:
  "outage world_down = Some ''engine unavailable''
   \<and> exports (snd (pause_batch_export world_down E1_id None))
       = set_paused_rows E1_id True (exports world_down)
   \<and> requests (snd (pause_batch_export world_down E1_id None))
       = requests world_down @ [PauseSchedule E1_id None]
   \<and> fst (pause_batch_export world_down E1_id None) = Inl (RPCError ''engine unavailable'')
   \<and> fst (unpause_batch_export world_down E1_id None) = Inl (RPCError ''engine unavailable'')"
proof -
  have h: "outage world_down = Some ''engine unavailable''"
    by (simp add: world_down_def)
  show ?thesis
    using h pause_engine_failure [of world_down E1_id None "''engine unavailable''"]
    by blast
qed

text \<open>
  Claim C10: for the string form of a UUID that no batch export row has as its id, the update
  of the paused flag affects zero rows and that count is not looked at: pause and unpause are
  then exactly the engine call, whose request for that id is issued, and the export table is
  unchanged.
\<close>

theorem pause_unknown_export:
  assumes "valid_uuid u" and "\<forall>b \<in> set (exports w). valid_uuid (be_id b)"
      and "u \<notin> set (map be_id (exports w))"
  shows "BatchExport_update_paused w (str_uuid u) True = (0, w)
         \<and> pause_batch_export w (str_uuid u) note = pause_schedule w (str_uuid u) note
         \<and> requests (snd (pause_batch_export w (str_uuid u) note))
             = requests w @ [PauseSchedule (str_uuid u) note]
         \<and> exports (snd (pause_batch_export w (str_uuid u) note)) = exports w
         \<and> BatchExport_update_paused w (str_uuid u) False = (0, w)
         \<and> unpause_batch_export w (str_uuid u) note = unpause_schedule w (str_uuid u) note
         \<and> requests (snd (unpause_batch_export w (str_uuid u) note))
             = requests w @ [UnpauseSchedule (str_uuid u) note]
         \<and> exports (snd (unpause_batch_export w (str_uuid u) note)) = exports w"
  using update_paused_no_match [OF unknown_uuid_no_match [OF assms]]
  by (simp add: pause_batch_export_def unpause_batch_export_def pause_schedule_def
        unpause_schedule_def engine_set_paused_requests engine_set_paused_exports)

theorem pause_unknown_export_witness:
  "valid_uuid (UUID 255) \<and> exports world0 = [E1] \<and> valid_uuid (be_id E1)
   \<and> UUID 255 \<notin> set (map be_id (exports world0))
   \<and> BatchExport_update_paused world0 ''00000000-0000-0000-0000-0000000000ff'' True
       = (0, world0)
   \<and> pause_batch_export world0 ''00000000-0000-0000-0000-0000000000ff'' None
       = pause_schedule world0 ''00000000-0000-0000-0000-0000000000ff'' None
   \<and> requests (snd (pause_batch_export world0 ''00000000-0000-0000-0000-0000000000ff'' None))
       = requests world0 @ [PauseSchedule ''00000000-0000-0000-0000-0000000000ff'' None]
   \<and> exports (snd (pause_batch_export world0 ''00000000-0000-0000-0000-0000000000ff'' None))
       = exports world0
   \<and> requests (snd (unpause_batch_export world0 ''00000000-0000-0000-0000-0000000000ff'' None))
       = requests world0 @ [UnpauseSchedule ''00000000-0000-0000-0000-0000000000ff'' None]"
proof -
  have 1: "valid_uuid (UUID 255)"
    by simp
  have 2: "\<forall>b \<in> set (exports world0). valid_uuid (be_id b)"
    by (simp add: demo_defs)
  have 3: "UUID 255 \<notin> set (map be_id (exports world0))"
    by (simp add: demo_defs)
  have 4: "exports world0 = [E1]" "valid_uuid (be_id E1)"
    by (simp_all add: demo_defs)
  show ?thesis
    using 1 3 4 pause_unknown_export [OF 1 2 3, of None]
    unfolding str_uuid_ff by blast
qed

section \<open>Schedules\<close>

text \<open>
  Claim C8: every operation addresses the engine under the identifier of the batch export.
  Pause, unpause, delete and describe issue exactly one request, under the id they were given;
  create issues no request (when the registry lookup or the input constructor fails) or exactly
  one, under \<^verbatim>\<open>str(batch_export.id)\<close>, which is also the id of the action; and batch exports with
  different ids have different schedule ids, the string form of a UUID being injective.
\<close>

theorem schedule_id_verbatim:
  "requests (snd (pause_batch_export w i note)) = requests w @ [PauseSchedule i note]
   \<and> requests (snd (unpause_batch_export w i note)) = requests w @ [UnpauseSchedule i note]
   \<and> requests (snd (delete_schedule w i)) = requests w @ [DeleteSchedule i]
   \<and> requests (snd (describe_schedule w i)) = requests w @ [DescribeSchedule i]
   \<and> (requests (snd (create_batch_export w b)) = requests w
      \<or> (\<exists>s sa. requests (snd (create_batch_export w b))
                  = requests w @ [CreateSchedule (str_uuid (be_id b)) s sa]
                 \<and> a_id (sch_action s) = str_uuid (be_id b)))
   \<and> (fst (create_batch_export w b) = Inr () \<longrightarrow>
        map request_id (requests (snd (create_batch_export w b)))
          = map request_id (requests w) @ [str_uuid (be_id b)])
   \<and> (valid_uuid (be_id b) \<and> valid_uuid (be_id b') \<and> be_id b \<noteq> be_id b'
        \<longrightarrow> str_uuid (be_id b) \<noteq> str_uuid (be_id b'))"
proof -
  have del: "requests (snd (delete_schedule w i)) = requests w @ [DeleteSchedule i]"
    by (simp add: delete_schedule_def engine_delete_schedule_def issue_def Let_def
          split: option.splits)
  have des: "requests (snd (describe_schedule w i)) = requests w @ [DescribeSchedule i]"
    by (simp add: describe_schedule_def engine_describe_schedule_def issue_def Let_def
          split: option.splits)
  have cr: "fst (create_batch_export w b) = Inr () \<longrightarrow>
        map request_id (requests (snd (create_batch_export w b)))
          = map request_id (requests w) @ [str_uuid (be_id b)]"
  proof
    assume "fst (create_batch_export w b) = Inr ()"
    then have "create_batch_export w b = (Inr (), snd (create_batch_export w b))"
      by (metis prod.collapse)
    from create_batch_export_Inr [OF this] show
      "map request_id (requests (snd (create_batch_export w b)))
          = map request_id (requests w) @ [str_uuid (be_id b)]"
      by auto
  qed
  show ?thesis
    using del des cr create_batch_export_requests [of w b] str_uuid_distinct
    by (simp add: pause_batch_export_eq unpause_batch_export_eq pause_schedule_def
          unpause_schedule_def engine_set_paused_requests)
qed

theorem schedule_id_verbatim_witness:
  "fst (create_batch_export world0 E1_paused) = Inr ()
   \<and> map request_id (requests (snd (create_batch_export world0 E1_paused)))
       = map request_id (requests world0) @ [str_uuid (be_id E1_paused)]
   \<and> requests (snd (pause_batch_export world0 E1_id None))
       = requests world0 @ [PauseSchedule E1_id None]
   \<and> requests (snd (unpause_batch_export world0 E1_id None))
       = requests world0 @ [UnpauseSchedule E1_id None]
   \<and> requests (snd (delete_schedule world0 E1_id)) = requests world0 @ [DeleteSchedule E1_id]
   \<and> requests (snd (describe_schedule world0 E1_id))
       = requests world0 @ [DescribeSchedule E1_id]
   \<and> valid_uuid (be_id E1_paused) \<and> valid_uuid (be_id E2) \<and> be_id E1_paused \<noteq> be_id E2
   \<and> str_uuid (be_id E1_paused) \<noteq> str_uuid (be_id E2)"
proof -
  have "valid_uuid (be_id E1_paused)" and "valid_uuid (be_id E2)"
    and "be_id E1_paused \<noteq> be_id E2"
    by (simp_all add: E1_paused_def E1_def E2_def)
  with create_E1_paused_fst schedule_id_verbatim [of world0 E1_id None E1_paused E2]
  show ?thesis
    by blast
qed

text \<open>
  Claim C7: when \<^verbatim>\<open>create_batch_export\<close> returns, \<^verbatim>\<open>describe_schedule\<close> on the id of the batch
  export returns a schedule whose paused state is the paused flag that the definition had when
  create was called.
\<close>

theorem create_then_describe:
  assumes "create_batch_export w b = (Inr (), w1)"
  shows "\<exists>s. fst (describe_schedule w1 (str_uuid (be_id b))) = Inr s
             \<and> s_paused (sch_state s) = be_paused b"
proof -
  from create_batch_export_Inr [OF assms] obtain s where
    up: "outage w1 = None" and
    fresh: "str_uuid (be_id b) \<notin> set (map fst (schedules w))" and
    sch: "schedules w1 = schedules w @ [(str_uuid (be_id b), s)]" and
    paused: "s_paused (sch_state s) = be_paused b"
    by blast
  from fresh have "map_of (schedules w) (str_uuid (be_id b)) = None"
    by (simp add: map_of_eq_None_iff)
  with sch have "map_of (schedules w1) (str_uuid (be_id b)) = Some s"
    by (simp add: map_add_def)
  with up have "fst (describe_schedule w1 (str_uuid (be_id b))) = Inr s"
    by (simp add: describe_schedule_def engine_describe_schedule_def Let_def)
  with paused show ?thesis
    by blast
qed

theorem create_then_describe_witness:
  "fst (create_batch_export world0 E1_paused) = Inr ()
   \<and> be_paused E1_paused
   \<and> (\<exists>s. fst (describe_schedule (snd (create_batch_export world0 E1_paused))
                  (str_uuid (be_id E1_paused))) = Inr s
           \<and> s_paused (sch_state s) = be_paused E1_paused)"
proof -
  have "be_paused E1_paused"
    by (simp add: E1_paused_def)
  with create_E1_paused_fst create_then_describe [OF create_E1_paused] show ?thesis
    by blast
qed

section \<open>Backfill\<close>

text \<open>
  Claim C3 says that a backfill of a batch export whose destination type is not registered
  fails and leaves no run record and no execution request. The source creates the run row
  before it subscripts the registry and has nothing that takes the row back: at the sample
  world the call raises KeyError and the run table, empty before, holds the new row.
\<close>

theorem backfill_unregistered_counterexample:
  "backfill_export (UUID 20) world_sf E2_id None None
     = (Inl (KeyError ''Snowflake''), world_sf\<lparr>runs := [backfill_row (UUID 20) E2 None None]\<rparr>)
   \<and> runs world_sf = []
   \<and> length (runs (snd (backfill_export (UUID 20) world_sf E2_id None None))) = 1"
proof -
  have cr: "BatchExportRun_objects_create world_sf (UUID 20) E2 None None
            = Inr (backfill_row (UUID 20) E2 None None,
                   world_sf\<lparr>runs := [backfill_row (UUID 20) E2 None None]\<rparr>)"
    by (simp add: objects_create_fresh world_sf_def world0_def)
  have ty: "d_type (be_destination E2) = ''Snowflake''"
    by (simp add: E2_def)
  have 1: "backfill_export (UUID 20) world_sf E2_id None None
     = (Inl (KeyError ''Snowflake''), world_sf\<lparr>runs := [backfill_row (UUID 20) E2 None None]\<rparr>)"
    by (simp add: backfill_export_def get_E2 cr lookup_workflow_def DESTINATION_WORKFLOWS_def
          ty)
  show ?thesis
    by (simp add: 1) (simp add: world_sf_def world0_def)
qed

text \<open>
  C3 as amended: for an existing batch export whose destination type is not registered (and a
  fresh primary key), \<^verbatim>\<open>backfill_export\<close> raises the lookup error (KeyError on the tag, the
  spec's UnknownDestinationType) and issues no request to the engine, whose schedules are as
  they were.
\<close>

theorem backfill_unregistered:
  assumes "BatchExport_objects_get w i = Inr b"
      and "DESTINATION_WORKFLOWS (d_type (be_destination b)) = None"
      and "pk \<notin> set (map r_id (runs w))"
  shows "fst (backfill_export pk w i s e) = Inl (KeyError (d_type (be_destination b)))
         \<and> requests (snd (backfill_export pk w i s e)) = requests w
         \<and> schedules (snd (backfill_export pk w i s e)) = schedules w"
  by (simp add: backfill_unregistered_world [OF assms])

theorem backfill_unregistered_witness:
  "BatchExport_objects_get world_sf E2_id = Inr E2
   \<and> DESTINATION_WORKFLOWS (d_type (be_destination E2)) = None
   \<and> UUID 21 \<notin> set (map r_id (runs world_sf))
   \<and> fst (backfill_export (UUID 21) world_sf E2_id None (Some (Datetime 1672617600)))
       = Inl (KeyError (d_type (be_destination E2)))
   \<and> requests (snd (backfill_export (UUID 21) world_sf E2_id None (Some (Datetime 1672617600))))
       = requests world_sf"
proof -
  have 1: "DESTINATION_WORKFLOWS (d_type (be_destination E2)) = None"
    by (simp add: DESTINATION_WORKFLOWS_def E2_def)
  have 2: "UUID 21 \<notin> set (map r_id (runs world_sf))"
    by (simp add: world_sf_def world0_def)
  show ?thesis
    using get_E2 1 2 backfill_unregistered [OF get_E2 1 2, of None "Some (Datetime 1672617600)"]
    by blast
qed




text \<open>
  Claim C9 says that the execution request of a successful backfill carries the string form of
  the primary key of the run record as its id. The source passes \<^verbatim>\<open>id=str(backfill_run.pk)\<close>,
  but to a coroutine function that it never awaits: at the sample world the call returns the
  run, no request has been issued to the engine, and the id is found only in the call that was
  dropped.
\<close>

theorem backfill_execution_never_issued:
  "fst (backfill_export (UUID 20) world0 E1_id (Some (Datetime 1672531200)) (Some (Datetime 1672617600))) = Inr (backfill_row (UUID 20) E1 (Some (Datetime 1672531200)) (Some (Datetime 1672617600)))
   \<and> requests world0 = []
   \<and> requests (snd (backfill_export (UUID 20) world0 E1_id (Some (Datetime 1672531200)) (Some (Datetime 1672617600)))) = []
   \<and> map request_id (never_awaited (snd (backfill_export (UUID 20) world0 E1_id (Some (Datetime 1672531200)) (Some (Datetime 1672617600))))) = [str_uuid (r_id (backfill_row (UUID 20) E1 (Some (Datetime 1672531200)) (Some (Datetime 1672617600))))]"
  by (simp add: backfill_E1_eval r_id_backfill_row) (simp add: world0_def)

end
